theory Spec2Isabelle
  imports Complex_Main "HOL-Library.Word"
begin

text \<open>
  A shallow embedding of \<^verbatim>\<open>stratum_proxy.py\<close>, the Stratum proxy in front of a Bitcoin
  Core node: its module globals and client dicts as a record, every function that handles
  a message or a template as a function on that record, and the exceptions that leave a
  function as values. What the program takes from outside (the outcome of the HTTP request
  to the node, the clock, the random draws, sockets that fail) is an argument or a field of
  the state. A handler runs from its first statement to its last on the state it is given:
  the threads of the program are taken one handler at a time.
\<close>

section \<open>JSON values and the Python operations the proxy applies to them\<close>

text \<open>
  Every message of the proxy is a value produced by \<^verbatim>\<open>json.loads\<close> or consumed by
  \<^verbatim>\<open>json.dumps\<close>. A Python \<^verbatim>\<open>dict\<close> is an association list in which the first
  binding of a key is the one that counts; a finite Python \<^verbatim>\<open>float\<close> is the real number
  it denotes (the values \<^verbatim>\<open>NaN\<close> and \<^verbatim>\<open>Infinity\<close>, which \<^verbatim>\<open>json.loads\<close> also
  accepts, are left out); a character is a code point below 256.
\<close>

datatype json =
    JNull
  | JBool bool
  | JInt int
  | JFloat real
  | JStr string
  | JArr "json list"
  | JObj "(string \<times> json) list"

datatype exn = TypeError | ValueError | AttributeError | KeyError | IndexError | Unmodelled

text \<open>Truth value testing (\<^verbatim>\<open>if x\<close>, \<^verbatim>\<open>if not x\<close>).\<close>

fun truthy :: "json \<Rightarrow> bool" where
  "truthy JNull = False"
| "truthy (JBool b) = b"
| "truthy (JInt n) = (n \<noteq> 0)"
| "truthy (JFloat r) = (r \<noteq> 0)"
| "truthy (JStr s) = (s \<noteq> [])"
| "truthy (JArr xs) = (xs \<noteq> [])"
| "truthy (JObj kvs) = (kvs \<noteq> [])"

text \<open>\<^verbatim>\<open>d.get(key, default)\<close> on the bindings of a dict.\<close>

definition dget :: "(string \<times> json) list \<Rightarrow> string \<Rightarrow> json \<Rightarrow> json" where
  "dget kvs k dflt = (case map_of kvs k of None \<Rightarrow> dflt | Some v \<Rightarrow> v)"

text \<open>\<^verbatim>\<open>len(x)\<close> on a list, a string or a dict; every other JSON value has no length.\<close>

fun py_len :: "json \<Rightarrow> exn + nat" where
  "py_len (JArr xs) = Inr (length xs)"
| "py_len (JStr s) = Inr (length s)"
| "py_len (JObj kvs) = Inr (length (remdups (map fst kvs)))"
| "py_len _ = Inl TypeError"

text \<open>
  \<^verbatim>\<open>x[i]\<close> with a non-negative integer \<open>i\<close>: an element of a list, a one-character
  string of a string; a dict decoded from JSON has string keys only, so it raises
  \<^verbatim>\<open>KeyError\<close>.
\<close>

fun py_index :: "json \<Rightarrow> nat \<Rightarrow> exn + json" where
  "py_index (JArr xs) i = (if i < length xs then Inr (xs ! i) else Inl IndexError)"
| "py_index (JStr s) i = (if i < length s then Inr (JStr [s ! i]) else Inl IndexError)"
| "py_index (JObj kvs) i = Inl KeyError"
| "py_index _ i = Inl TypeError"

text \<open>
  \<^verbatim>\<open>float(x)\<close>. An integer of magnitude at most \<open>2^53\<close> converts exactly, a float is
  itself, a bool is 0 or 1, and \<^verbatim>\<open>None\<close>, lists and dicts raise \<^verbatim>\<open>TypeError\<close>.
  The rounding of larger integers and the parsing of strings are not spelled out here:
  those inputs give \<open>Unmodelled\<close>, and no statement below is about them.
\<close>

fun py_float :: "json \<Rightarrow> exn + real" where
  "py_float (JInt n) = (if \<bar>n\<bar> \<le> 2 ^ 53 then Inr (of_int n) else Inl Unmodelled)"
| "py_float (JFloat r) = Inr r"
| "py_float (JBool b) = Inr (if b then 1 else 0)"
| "py_float (JStr s) = Inl Unmodelled"
| "py_float _ = Inl TypeError"

section \<open>Hexadecimal strings and bytes\<close>

type_synonym byte = "8 word"

definition hexdigit :: "nat \<Rightarrow> char" where
  "hexdigit n = ''0123456789abcdef'' ! n"

text \<open>The value of a hexadecimal digit, in either case; \<open>None\<close> for any other character.\<close>

definition digit_value :: "char \<Rightarrow> nat option" where
  "digit_value c =
     (let n = (of_char c :: nat) in
      if 48 \<le> n \<and> n \<le> 57 then Some (n - 48)
      else if 97 \<le> n \<and> n \<le> 102 then Some (n - 87)
      else if 65 \<le> n \<and> n \<le> 70 then Some (n - 55)
      else None)"

text \<open>ASCII whitespace: space, \<^verbatim>\<open>\t \n \v \f \r\<close>.\<close>

definition is_space :: "char \<Rightarrow> bool" where
  "is_space c = (let n = (of_char c :: nat) in n = 32 \<or> (9 \<le> n \<and> n \<le> 13))"

text \<open>
  \<^verbatim>\<open>bytes.fromhex(s)\<close>, as of Python 3.7: whitespace is skipped before a pair of digits,
  never inside one; anything else but a pair of hexadecimal digits raises
  \<^verbatim>\<open>ValueError\<close>.
\<close>

fun fromhex :: "string \<Rightarrow> exn + byte list" where
  "fromhex [] = Inr []"
| "fromhex [c] = (if is_space c then Inr [] else Inl ValueError)"
| "fromhex (c # d # cs) =
     (if is_space c then fromhex (d # cs)
      else (case (digit_value c, digit_value d) of
              (Some hi, Some lo) \<Rightarrow>
                (case fromhex cs of
                   Inl e \<Rightarrow> Inl e
                 | Inr bs \<Rightarrow> Inr (of_nat (hi * 16 + lo) # bs))
            | _ \<Rightarrow> Inl ValueError))"

text \<open>\<^verbatim>\<open>b.hex()\<close>: two lower-case digits for each byte.\<close>

fun tohex :: "byte list \<Rightarrow> string" where
  "tohex [] = []"
| "tohex (b # bs) = hexdigit (unat b div 16) # hexdigit (unat b mod 16) # tohex bs"

text \<open>
  \<^verbatim>\<open>bytes.fromhex(x)[::-1].hex()\<close>, the byte-order reversal \<^verbatim>\<open>send_job\<close> applies to the
  previous block hash, the version, the bits and the time. A value that is not a string
  raises \<^verbatim>\<open>TypeError\<close>.
\<close>

definition reverse_hex :: "string \<Rightarrow> exn + string" where
  "reverse_hex s = (case fromhex s of Inl e \<Rightarrow> Inl e | Inr bs \<Rightarrow> Inr (tohex (rev bs)))"

fun reverse_hex_json :: "json \<Rightarrow> exn + string" where
  "reverse_hex_json (JStr s) = reverse_hex s"
| "reverse_hex_json _ = Inl TypeError"

text \<open>The digits of \<^verbatim>\<open>format(n, 'x')\<close> for \<open>n \<ge> 0\<close>.\<close>

fun hexstr :: "nat \<Rightarrow> string" where
  "hexstr n = (if n < 16 then [hexdigit n] else hexstr (n div 16) @ [hexdigit (n mod 16)])"

declare hexstr.simps [simp del]

text \<open>\<^verbatim>\<open>s.zfill(w)\<close> on a string without a sign.\<close>

definition zfill :: "nat \<Rightarrow> string \<Rightarrow> string" where
  "zfill w s = replicate (w - length s) CHR ''0'' @ s"

text \<open>
  \<^verbatim>\<open>format(n, '08x')\<close> for an integer: zero-padded to eight characters, the sign of a
  negative number first.
\<close>

definition format_08x :: "int \<Rightarrow> string" where
  "format_08x n =
     (if n < 0 then CHR ''-'' # zfill 7 (hexstr (nat (- n))) else zfill 8 (hexstr (nat n)))"

text \<open>\<^verbatim>\<open>f"{n:x}"\<close>.\<close>

definition format_x :: "int \<Rightarrow> string" where
  "format_x n = (if n < 0 then CHR ''-'' # hexstr (nat (- n)) else hexstr (nat n))"

section \<open>The proxy's state\<close>

text \<open>
  A client is the dict \<^verbatim>\<open>handle_client\<close> creates. It is shared by the handling thread
  and the global list \<^verbatim>\<open>clients\<close>, so the dicts live in a heap indexed by their socket
  and the list holds sockets; removing a client from the list leaves its dict in the heap,
  where the handling thread still reads and writes it.
\<close>

type_synonym sock = nat

record client =
  address :: string
  buffer :: string
  username :: json

datatype level = INFO | WARNING | ERROR

text \<open>
  The module's globals, and the world the proxy acts on: the sockets on which
  \<^verbatim>\<open>sendall\<close> raises (closed by the proxy or failed; a socket keeps its condition while
  one handler runs), every message sent so far, every RPC issued to the node so far, and the
  lines logged at level INFO or above (the configured level; the message text, then the
  values interpolated into it).
\<close>

record proxy =
  clients :: "sock list"
  heap :: "sock \<Rightarrow> client"
  broken :: "sock set"
  outbox :: "(sock \<times> json) list"
  rpc_calls :: "(string \<times> json) list"
  logged :: "(level \<times> string \<times> json list) list"
  difficulty :: json
  job_id :: int
  current_block :: json
  current_transactions :: json
  extranonce1 :: "string option"

definition extranonce2_size :: int where
  "extranonce2_size = 4"

text \<open>The state of a freshly started process.\<close>

definition initial :: proxy where
  "initial =
     \<lparr>clients = [], heap = (\<lambda>_. \<lparr>address = [], buffer = [], username = JNull\<rparr>),
      broken = {}, outbox = [], rpc_calls = [], logged = [],
      difficulty = JInt 1, job_id = 0, current_block = JNull,
      current_transactions = JNull, extranonce1 = None\<rparr>"

text \<open>
  What a handler takes from outside while it runs: the outcome of the HTTP request of
  \<^verbatim>\<open>bitcoin_rpc\<close>, \<^verbatim>\<open>int(time.time())\<close>, \<^verbatim>\<open>random.random()\<close> and the positions
  \<^verbatim>\<open>random.choice\<close> draws.
\<close>

datatype http_outcome =
    ConnectionRefused
  | OtherFailure
  | Response nat "json option"

record env =
  http :: http_outcome
  now :: nat
  roll :: real
  pick :: "nat \<Rightarrow> nat"

definition log_msg :: "level \<Rightarrow> string \<Rightarrow> json list \<Rightarrow> proxy \<Rightarrow> proxy" where
  "log_msg lvl msg args st = st\<lparr>logged := logged st @ [(lvl, msg, args)]\<rparr>"

section \<open>The node RPC client\<close>

text \<open>The value of \<^verbatim>\<open>result['error'].get('code') == -8\<close>.\<close>

definition is_minus8 :: "json \<Rightarrow> bool" where
  "is_minus8 v = (v = JInt (- 8) \<or> v = JFloat (- 8))"

text \<open>
  The body of a 200 response, once decoded: \<^verbatim>\<open>'error' in result and result['error']\<close>
  holds when the key is bound to a true value. Anything but a dict raises inside the
  \<^verbatim>\<open>try\<close> (a \<^verbatim>\<open>TypeError\<close> from \<^verbatim>\<open>in\<close> or from the subscript), as a dict without
  \<^verbatim>\<open>'result'\<close> does (\<^verbatim>\<open>KeyError\<close>); the handler logs and returns \<^verbatim>\<open>None\<close>.
\<close>

fun rpc_result :: "proxy \<Rightarrow> json \<Rightarrow> proxy \<times> json" where
  "rpc_result st (JObj kvs) =
     (let err = dget kvs ''error'' JNull in
      if truthy err then
        (let st1 = log_msg ERROR ''Bitcoin RPC error: {}'' [err] st in
         case err of
           JObj ekvs \<Rightarrow>
             (if is_minus8 (dget ekvs ''code'' JNull)
              then (log_msg WARNING ''Non-critical RPC error: {}'' [err] st1, JObj [])
              else (st1, JNull))
         | _ \<Rightarrow> (st1, JNull))
      else
        (case map_of kvs ''result'' of
           None \<Rightarrow> (log_msg ERROR ''RPC connection error: {}'' [] st, JNull)
         | Some r \<Rightarrow> (st, r)))"
| "rpc_result st _ = (log_msg ERROR ''RPC connection error: {}'' [] st, JNull)"

text \<open>
  \<^verbatim>\<open>bitcoin_rpc(method, params)\<close>: \<^verbatim>\<open>None\<close> on every failure, \<^verbatim>\<open>{}\<close> on an RPC
  error of code -8, the node's result otherwise.
\<close>

definition bitcoin_rpc :: "proxy \<Rightarrow> string \<Rightarrow> json \<Rightarrow> http_outcome \<Rightarrow> proxy \<times> json" where
  "bitcoin_rpc st0 meth params h =
     (let st = st0\<lparr>rpc_calls := rpc_calls st0 @ [(meth, params)]\<rparr> in
      case h of
        ConnectionRefused \<Rightarrow>
          (log_msg ERROR ''Connection refused: Is Bitcoin Core running?'' [] st, JNull)
      | OtherFailure \<Rightarrow> (log_msg ERROR ''RPC connection error: {}'' [] st, JNull)
      | Response status body \<Rightarrow>
          (if status = 200 then
             (case body of
                None \<Rightarrow> (log_msg ERROR ''RPC connection error: {}'' [] st, JNull)
              | Some result \<Rightarrow> rpc_result st result)
           else if status = 401 then
             (log_msg ERROR ''Authentication failed: Check your bitcoin.conf RPC credentials'' [] st,
              JNull)
           else (log_msg ERROR ''HTTP error: {} {}'' [JInt (int status)] st, JNull)))"

section \<open>Sending to clients\<close>

text \<open>
  \<^verbatim>\<open>remove_client\<close>: a client still in the list has its socket closed and leaves the
  list; one already removed is left alone.
\<close>

definition remove_client :: "proxy \<Rightarrow> sock \<Rightarrow> proxy" where
  "remove_client st c =
     (if c \<in> set (clients st) then
        log_msg INFO ''Client disconnected: {}'' [JStr (address (heap st c))]
          (st\<lparr>broken := insert c (broken st), clients := remove1 c (clients st)\<rparr>)
      else st)"

text \<open>
  \<^verbatim>\<open>send_to_client\<close>: the message goes out, or \<^verbatim>\<open>sendall\<close> raises, the error is
  logged and the client is removed. It never raises itself.
\<close>

definition send_to_client :: "proxy \<Rightarrow> sock \<Rightarrow> json \<Rightarrow> proxy" where
  "send_to_client st c data =
     (if c \<in> broken st then
        remove_client (log_msg ERROR ''Error sending to client: {}'' [] st) c
      else st\<lparr>outbox := outbox st @ [(c, data)]\<rparr>)"

text \<open>A response \<open>{'id': msg_id, 'result': r, 'error': None}\<close>.\<close>

definition response :: "json \<Rightarrow> json \<Rightarrow> json" where
  "response msg_id r = JObj [(''id'', msg_id), (''result'', r), (''error'', JNull)]"

section \<open>Job notifications\<close>

text \<open>\<^verbatim>\<open>format(v, '08x')\<close>: integers and bools only.\<close>

fun py_format_08x :: "json \<Rightarrow> exn + string" where
  "py_format_08x (JInt n) = Inr (format_08x n)"
| "py_format_08x (JBool b) = Inr (format_08x (if b then 1 else 0))"
| "py_format_08x (JFloat r) = Inl ValueError"
| "py_format_08x (JStr s) = Inl ValueError"
| "py_format_08x _ = Inl TypeError"

definition coinbase1 :: string where
  "coinbase1 =
     ''01000000010000000000000000000000000000000000000000000000000000000000000000ffffffff20''"

definition coinbase2 :: string where
  "coinbase2 =
     ''ffffffff0100f2052a01000000434104678afdb0fe5548271967f1a67130b7105cd6a828e03909a67962e0ea1f61deb649f6bc3f4cef38c4f35504e51ec112de5c384df7ba0b8d578a4c702b6bf11d5fac00000000''"

text \<open>
  The fields \<^verbatim>\<open>send_job\<close> computes from the bindings of \<^verbatim>\<open>current_block\<close>, in the
  order it computes them, before it logs and sends: the reversed previous hash, version,
  bits and time. \<open>Inr None\<close> is the early return on a missing or empty previous hash;
  \<open>Inl\<close> is the exception of the first conversion that fails.
\<close>

definition job_fields ::
  "(string \<times> json) list \<Rightarrow> nat \<Rightarrow> exn + (string \<times> string \<times> string \<times> string) option" where
  "job_fields blk t =
     (let prevhash = dget blk ''previousblockhash'' (JStr []) in
      if \<not> truthy prevhash then Inr None
      else
        (case reverse_hex_json prevhash of
           Inl x \<Rightarrow> Inl x
         | Inr reversed_prevhash \<Rightarrow>
        (case py_format_08x (dget blk ''version'' (JInt 1)) of
           Inl x \<Rightarrow> Inl x
         | Inr version_hex \<Rightarrow>
        (case reverse_hex version_hex of
           Inl x \<Rightarrow> Inl x
         | Inr version \<Rightarrow>
        (case reverse_hex_json (dget blk ''bits'' (JStr ''1d00ffff'')) of
           Inl x \<Rightarrow> Inl x
         | Inr bits \<Rightarrow>
        (let ntime_raw = dget blk ''curtime'' (JInt (int t));
             ntime_hex =
               (case ntime_raw of
                  JInt n \<Rightarrow> JStr (format_08x n)
                | JBool b \<Rightarrow> JStr (format_08x (if b then 1 else 0))
                | _ \<Rightarrow> ntime_raw)
         in case reverse_hex_json ntime_hex of
              Inl x \<Rightarrow> Inl x
            | Inr ntime \<Rightarrow> Inr (Some (reversed_prevhash, version, bits, ntime))))))))"

definition job_notification :: "int \<Rightarrow> string \<times> string \<times> string \<times> string \<Rightarrow> json" where
  "job_notification jid f =
     (case f of (reversed_prevhash, version, bits, ntime) \<Rightarrow>
        JObj [(''id'', JNull), (''method'', JStr ''mining.notify''),
              (''params'',
               JArr [JStr (format_x jid), JStr reversed_prevhash, JStr coinbase1,
                     JStr coinbase2, JArr [], JStr version, JStr bits, JStr ntime,
                     JBool False])])"

text \<open>
  \<^verbatim>\<open>send_job(client)\<close>. The second component is the exception that leaves the function,
  if any; \<^verbatim>\<open>current_block\<close> that is true but not a dict has no \<^verbatim>\<open>get\<close>.
\<close>

definition send_job :: "proxy \<Rightarrow> sock \<Rightarrow> env \<Rightarrow> proxy \<times> exn option" where
  "send_job st c e =
     (if \<not> truthy (current_block st) then (st, None)
      else
        (case current_block st of
           JObj blk \<Rightarrow>
             (case job_fields blk (now e) of
                Inl x \<Rightarrow> (st, Some x)
              | Inr None \<Rightarrow> (st, None)
              | Inr (Some f) \<Rightarrow>
                  (let st1 = log_msg INFO ''Sending job {} to client {} with bits {}''
                               [JStr (format_x (job_id st)), JStr (address (heap st c)),
                                JStr (fst (snd (snd f)))] st
                   in (send_to_client st1 c (job_notification (job_id st) f), None)))
         | _ \<Rightarrow> (st, Some AttributeError)))"

section \<open>The job template\<close>

text \<open>The placeholder \<^verbatim>\<open>get_block_template\<close> uses when the RPC gave nothing.\<close>

definition dummy_template :: "nat \<Rightarrow> json" where
  "dummy_template t =
     JObj [(''previousblockhash'',
            JStr ''000000000000000000096b9ba75c557a8b5ad267b11ddddd97f2c62a1b2a8f4c''),
           (''bits'', JStr ''1a03c34b''),
           (''curtime'', JStr (zfill 8 (hexstr t))),
           (''height'', JInt 800000),
           (''transactions'', JArr [])]"

lemma clients_log_msg [simp]: "clients (log_msg lvl msg args st) = clients st"
  by (simp add: log_msg_def)

lemma length_clients_remove_client: "length (clients (remove_client st c)) \<le> length (clients st)"
  by (simp add: remove_client_def length_remove1)

lemma length_clients_send_to_client:
  "length (clients (send_to_client st c m)) \<le> length (clients st)"
  using length_clients_remove_client [of "log_msg ERROR ''Error sending to client: {}'' [] st" c]
  by (simp add: send_to_client_def)

lemma length_clients_send_job:
  "send_job st c e = (st', r) \<Longrightarrow> length (clients st') \<le> length (clients st)"
  by (auto simp: send_job_def Let_def split: if_splits json.splits sum.splits option.splits
        intro!: order_trans [OF length_clients_send_to_client])

text \<open>
  The loop \<^verbatim>\<open>for client in clients\<close> of \<^verbatim>\<open>get_block_template\<close>. A Python list
  iterator is a position in the list: when \<^verbatim>\<open>send_job\<close> removes the current client
  from \<^verbatim>\<open>clients\<close>, the next step reads the position after it in the shortened list.
  An exception of \<^verbatim>\<open>send_job\<close> ends the loop.
\<close>

function notify_clients :: "proxy \<Rightarrow> nat \<Rightarrow> env \<Rightarrow> proxy \<times> exn option" where
  "notify_clients st i e =
     (if i < length (clients st) then
        (let c = clients st ! i in
         if truthy (username (heap st c)) then
           (case send_job st c e of
              (st', Some x) \<Rightarrow> (st', Some x)
            | (st', None) \<Rightarrow> notify_clients st' (Suc i) e)
         else notify_clients st (Suc i) e)
      else (st, None))"
  by pat_completeness auto
termination
proof (relation "measure (\<lambda>(st, i, e). length (clients st) - i)")
  show "wf (measure (\<lambda>(st, i, e). length (clients st) - i))"
    by simp
next
  fix st :: proxy and i :: nat and e :: env and c p st' r
  assume "i < length (clients st)" and "c = clients st ! i"
    and "(st', r) = send_job st c e"
  then show "((st', Suc i, e), (st, i, e)) \<in> measure (\<lambda>(st, i, e). length (clients st) - i)"
    using length_clients_send_job [of st c e st' r] by simp
next
  fix st :: proxy and i :: nat and e :: env
  assume "i < length (clients st)"
  then show "((st, Suc i, e), (st, i, e)) \<in> measure (\<lambda>(st, i, e). length (clients st) - i)"
    by simp
qed

declare notify_clients.simps [simp del]

text \<open>The parameters of the RPC: \<^verbatim>\<open>[{'rules': ['segwit']}]\<close>.\<close>

definition template_request :: json where
  "template_request = JArr [JObj [(''rules'', JArr [JStr ''segwit''])]]"

text \<open>\<^verbatim>\<open>get_block_template()\<close>.\<close>

definition get_block_template :: "proxy \<Rightarrow> env \<Rightarrow> proxy \<times> exn option" where
  "get_block_template st e =
     (case bitcoin_rpc st ''getblocktemplate'' template_request (http e) of
        (st1, fetched) \<Rightarrow>
          (let st2 = (if \<not> truthy fetched
                      then log_msg ERROR ''Failed to get block template'' [] st1 else st1);
               template = (if \<not> truthy fetched then dummy_template (now e) else fetched);
               st3 = st2\<lparr>current_block := template\<rparr>
           in case template of
                JObj kvs \<Rightarrow>
                  (let st4 = st3\<lparr>current_transactions := dget kvs ''transactions'' (JArr []),
                                 job_id := job_id st3 + 1\<rparr>;
                       st5 = log_msg INFO ''Got new block template at height {}''
                               [dget kvs ''height'' (JStr ''unknown'')] st4
                   in notify_clients st5 0 e)
              | _ \<Rightarrow> (st3, Some AttributeError)))"

section \<open>The handlers\<close>

text \<open>
  \<^verbatim>\<open>handle_subscribe(client, msg_id)\<close>. The global \<^verbatim>\<open>extranonce1\<close> is drawn when it
  is \<^verbatim>\<open>None\<close> or empty: eight characters, each \<^verbatim>\<open>random.choice('0123456789abcdef')\<close>.
\<close>

definition fresh_extranonce :: "(nat \<Rightarrow> nat) \<Rightarrow> string" where
  "fresh_extranonce p = map (\<lambda>k. hexdigit (p k mod 16)) [0, 1, 2, 3, 4, 5, 6, 7]"

definition subscribe_result :: "string \<Rightarrow> json" where
  "subscribe_result x =
     JArr [JArr [JStr ''mining.notify'', JStr (''proxy_'' @ x)], JStr x, JInt extranonce2_size]"

definition handle_subscribe :: "proxy \<Rightarrow> sock \<Rightarrow> json \<Rightarrow> env \<Rightarrow> proxy" where
  "handle_subscribe st c msg_id e =
     (let x = (case extranonce1 st of
                 None \<Rightarrow> fresh_extranonce (pick e)
               | Some s \<Rightarrow> if s = [] then fresh_extranonce (pick e) else s);
          st1 = st\<lparr>extranonce1 := Some x\<rparr>
      in send_to_client st1 c (response msg_id (subscribe_result x)))"

text \<open>The notification \<^verbatim>\<open>mining.set_difficulty\<close>.\<close>

definition difficulty_notification :: "json \<Rightarrow> json" where
  "difficulty_notification d =
     JObj [(''id'', JNull), (''method'', JStr ''mining.set_difficulty''), (''params'', JArr [d])]"

text \<open>\<^verbatim>\<open>handle_authorize(client, msg_id, username, password)\<close>.\<close>

definition handle_authorize ::
  "proxy \<Rightarrow> sock \<Rightarrow> json \<Rightarrow> json \<Rightarrow> json \<Rightarrow> env \<Rightarrow> proxy \<times> exn option" where
  "handle_authorize st c msg_id uname password e =
     (let st1 = send_to_client st c (response msg_id (JBool True));
          st2 = st1\<lparr>heap := (heap st1)(c := (heap st1 c)\<lparr>username := uname\<rparr>)\<rparr>;
          st3 = log_msg INFO ''Client {} authorized as {}''
                  [JStr (address (heap st2 c)), uname] st2;
          st4 = send_to_client st3 c (difficulty_notification (difficulty st3))
      in case (if \<not> truthy (current_block st4) then get_block_template st4 e
               else (st4, None)) of
           (st5, Some x) \<Rightarrow> (st5, Some x)
         | (st5, None) \<Rightarrow>
             (if truthy (current_block st5) then send_job st5 c e else (st5, None)))"

text \<open>
  \<^verbatim>\<open>handle_submit(client, msg_id, worker_name, job_id, extranonce2, ntime, nonce)\<close>:
  the share is accepted as it comes, and one time in ten
  (\<^verbatim>\<open>random.random() < 0.1\<close>) the template is fetched again.
\<close>

definition handle_submit ::
  "proxy \<Rightarrow> sock \<Rightarrow> json \<Rightarrow> json \<Rightarrow> json \<Rightarrow> json \<Rightarrow> json \<Rightarrow> json \<Rightarrow> env
     \<Rightarrow> proxy \<times> exn option" where
  "handle_submit st c msg_id worker_name job extranonce2 ntime nonce e =
     (let st1 = log_msg INFO ''Share submitted by {}: job_id={}, nonce={}''
                  [worker_name, job, nonce] st;
          st2 = send_to_client st1 c (response msg_id (JBool True));
          st3 = log_msg INFO ''Share accepted from {}'' [worker_name] st2
      in if roll e < 1 / 10 then get_block_template st3 e else (st3, None))"

text \<open>\<^verbatim>\<open>handle_configure(client, msg_id, params)\<close>.\<close>

definition handle_configure :: "proxy \<Rightarrow> sock \<Rightarrow> json \<Rightarrow> json \<Rightarrow> proxy" where
  "handle_configure st c msg_id params =
     send_to_client (log_msg INFO ''Received mining.configure with params: {}'' [params] st) c
       (response msg_id (JObj [(''version-rolling'', JBool False), (''subscriptions'', JArr [])]))"

text \<open>
  \<^verbatim>\<open>handle_suggest_difficulty(client, msg_id, params)\<close>: the global \<^verbatim>\<open>difficulty\<close>
  becomes \<^verbatim>\<open>float(params[0])\<close>.
\<close>

definition handle_suggest_difficulty ::
  "proxy \<Rightarrow> sock \<Rightarrow> json \<Rightarrow> json \<Rightarrow> proxy \<times> exn option" where
  "handle_suggest_difficulty st c msg_id params =
     (let st1 = log_msg INFO ''Received mining.suggest_difficulty with params: {}'' [params] st;
          reply = (\<lambda>s. (send_to_client s c (response msg_id (JBool True)), None))
      in if truthy params then
           (case py_len params of
              Inl x \<Rightarrow> (st1, Some x)
            | Inr n \<Rightarrow>
                if 0 < n then
                  (case py_index params 0 of
                     Inl x \<Rightarrow> (st1, Some x)
                   | Inr p0 \<Rightarrow>
                       (case py_float p0 of
                          Inl x \<Rightarrow> (st1, Some x)
                        | Inr suggested_diff \<Rightarrow>
                            reply ((log_msg INFO ''Miner suggested difficulty: {}''
                                      [JFloat suggested_diff] st1)
                                     \<lparr>difficulty := JFloat suggested_diff\<rparr>)))
                else reply st1)
         else reply st1)"

section \<open>The dispatcher\<close>

text \<open>
  The \<^verbatim>\<open>except Exception\<close> around the processing of one message: the exception is
  logged and the loop goes on.
\<close>

definition caught :: "sock \<Rightarrow> proxy \<times> exn option \<Rightarrow> proxy" where
  "caught c r =
     (case r of
        (st, None) \<Rightarrow> st
      | (st, Some x) \<Rightarrow>
          log_msg ERROR ''Error processing message from {}: {}'' [JStr (address (heap st c))] st)"

text \<open>
  One decoded line of \<^verbatim>\<open>handle_client\<close>: the body of its \<^verbatim>\<open>try\<close>, from
  \<^verbatim>\<open>message.get('method', '')\<close> to the last branch. The arguments of a call are read
  left to right, so the first subscript that raises is the exception.
\<close>

definition handle_message :: "proxy \<Rightarrow> sock \<Rightarrow> json \<Rightarrow> env \<Rightarrow> proxy" where
  "handle_message st c message e =
     (case message of
        JObj kvs \<Rightarrow>
          (let meth = dget kvs ''method'' (JStr []);
               msg_id = dget kvs ''id'' (JInt 0);
               params = dget kvs ''params'' (JArr [])
           in
           if meth = JStr ''mining.subscribe'' then handle_subscribe st c msg_id e
           else if meth = JStr ''mining.authorize'' then
             caught c
               (case py_len params of
                  Inl x \<Rightarrow> (st, Some x)
                | Inr n \<Rightarrow>
                    if 2 \<le> n then
                      (case py_index params 0 of Inl x \<Rightarrow> (st, Some x) | Inr p0 \<Rightarrow>
                      (case py_index params 1 of Inl x \<Rightarrow> (st, Some x) | Inr p1 \<Rightarrow>
                         handle_authorize st c msg_id p0 p1 e))
                    else (st, None))
           else if meth = JStr ''mining.submit'' then
             caught c
               (case py_len params of
                  Inl x \<Rightarrow> (st, Some x)
                | Inr n \<Rightarrow>
                    if 5 \<le> n then
                      (case py_index params 0 of Inl x \<Rightarrow> (st, Some x) | Inr p0 \<Rightarrow>
                      (case py_index params 1 of Inl x \<Rightarrow> (st, Some x) | Inr p1 \<Rightarrow>
                      (case py_index params 2 of Inl x \<Rightarrow> (st, Some x) | Inr p2 \<Rightarrow>
                      (case py_index params 3 of Inl x \<Rightarrow> (st, Some x) | Inr p3 \<Rightarrow>
                      (case py_index params 4 of Inl x \<Rightarrow> (st, Some x) | Inr p4 \<Rightarrow>
                         handle_submit st c msg_id p0 p1 p2 p3 p4 e)))))
                    else (st, None))
           else if meth = JStr ''mining.configure'' then handle_configure st c msg_id params
           else if meth = JStr ''mining.suggest_difficulty'' then
             caught c (handle_suggest_difficulty st c msg_id params)
           else
             send_to_client
               (log_msg WARNING ''Unknown method from {}: {}'' [JStr (address (heap st c)), meth] st)
               c (response msg_id (JBool True)))
      | _ \<Rightarrow> caught c (st, Some AttributeError))"

text \<open>
  One line of input: \<^verbatim>\<open>None\<close> when \<^verbatim>\<open>json.loads\<close> raises
  \<^verbatim>\<open>JSONDecodeError\<close>, which is logged as a warning.
\<close>

definition handle_line :: "proxy \<Rightarrow> sock \<Rightarrow> json option \<Rightarrow> env \<Rightarrow> proxy" where
  "handle_line st c line e =
     (case line of
        None \<Rightarrow> log_msg WARNING ''Invalid JSON from {}: {}'' [JStr (address (heap st c))] st
      | Some message \<Rightarrow> handle_message st c message e)"

text \<open>
  The start of \<^verbatim>\<open>handle_client\<close>: a new client dict, appended to \<^verbatim>\<open>clients\<close>.
\<close>

definition connect :: "proxy \<Rightarrow> sock \<Rightarrow> string \<Rightarrow> proxy" where
  "connect st c addr =
     log_msg INFO ''New client connected: {}'' [JStr addr]
       (st\<lparr>heap := (heap st)(c := \<lparr>address = addr, buffer = [], username = JNull\<rparr>),
           clients := clients st @ [c]\<rparr>)"



section \<open>The vocabulary of the properties\<close>

text \<open>
  Definitions used to state the properties below; none of them is part of the program.
\<close>

text \<open>
  The digits \<^verbatim>\<open>0\<close> to \<^verbatim>\<open>9\<close> and \<^verbatim>\<open>a\<close> to \<^verbatim>\<open>f\<close>, the ones
  \<^verbatim>\<open>hex()\<close> and \<^verbatim>\<open>format(n, 'x')\<close> write.
\<close>

definition is_lower_hexdigit :: "char \<Rightarrow> bool" where
  "is_lower_hexdigit c =
     (let n = (of_char c :: nat) in (48 \<le> n \<and> n \<le> 57) \<or> (97 \<le> n \<and> n \<le> 102))"

text \<open>
  A string of lower-case hexadecimal digits.
\<close>

definition lower_hex :: "string \<Rightarrow> bool" where
  "lower_hex s = list_all is_lower_hexdigit s"

text \<open>Messages are only ever appended to the outbox.\<close>

definition grows :: "'a list \<Rightarrow> 'a list \<Rightarrow> bool" where
  "grows xs ys = (\<exists>zs. ys = xs @ zs)"

text \<open>
  What \<^verbatim>\<open>bitcoin_rpc\<close> returns for an outcome of the HTTP request: it depends on
  nothing else.
\<close>

definition rpc_value :: "http_outcome \<Rightarrow> json" where
  "rpc_value h = snd (bitcoin_rpc initial ''getblocktemplate'' JNull h)"

text \<open>The template \<^verbatim>\<open>get_block_template\<close> installs: the node's, or the placeholder.\<close>

definition installed_template :: "http_outcome \<Rightarrow> nat \<Rightarrow> json" where
  "installed_template h t = (if \<not> truthy (rpc_value h) then dummy_template t else rpc_value h)"

text \<open>The state in which the loop over the clients starts.\<close>

definition before_notify :: "proxy \<Rightarrow> env \<Rightarrow> proxy" where
  "before_notify st e =
     (let st1 = fst (bitcoin_rpc st ''getblocktemplate'' template_request (http e));
          st2 = (if \<not> truthy (rpc_value (http e))
                 then log_msg ERROR ''Failed to get block template'' [] st1 else st1);
          st3 = st2\<lparr>current_block := installed_template (http e) (now e)\<rparr>
      in case installed_template (http e) (now e) of
           JObj kvs \<Rightarrow>
             log_msg INFO ''Got new block template at height {}''
               [dget kvs ''height'' (JStr ''unknown'')]
               (st3\<lparr>current_transactions := dget kvs ''transactions'' (JArr []),
                    job_id := job_id st3 + 1\<rparr>)
         | _ \<Rightarrow> st3)"

text \<open>
  The test \<^verbatim>\<open>client.get('username')\<close> of the broadcast: the client has a user name
  that is true.
\<close>

definition authorized :: "proxy \<Rightarrow> sock \<Rightarrow> bool" where
  "authorized st c = truthy (username (heap st c))"

text \<open>
  The line \<^verbatim>\<open>send_job\<close> logs.
\<close>

definition job_log :: "proxy \<Rightarrow> string \<times> string \<times> string \<times> string \<Rightarrow> sock \<Rightarrow> level \<times> string \<times> json list" where
  "job_log st f c =
     (INFO, ''Sending job {} to client {} with bits {}'',
      [JStr (format_x (job_id st)), JStr (address (heap st c)), JStr (fst (snd (snd f)))])"

text \<open>A server notification \<^verbatim>\<open>mining.notify\<close>, to any client.\<close>

definition is_notify :: "sock \<times> json \<Rightarrow> bool" where
  "is_notify cm =
     (case snd cm of
        JObj kvs \<Rightarrow> dget kvs ''method'' JNull = JStr ''mining.notify''
      | _ \<Rightarrow> False)"

text \<open>
  The second list is the first one followed by elements that all satisfy \<open>P\<close>.
\<close>

definition appended :: "('a \<Rightarrow> bool) \<Rightarrow> 'a list \<Rightarrow> 'a list \<Rightarrow> bool" where
  "appended P xs ys = (\<exists>zs. ys = xs @ zs \<and> list_all P zs)"


text \<open>The messages sent between two states.\<close>

definition sent_during :: "proxy \<Rightarrow> proxy \<Rightarrow> (sock \<times> json) list" where
  "sent_during st st' = drop (length (outbox st)) (outbox st')"

text \<open>The RPCs issued between two states.\<close>

definition calls_during :: "proxy \<Rightarrow> proxy \<Rightarrow> (string \<times> json) list" where
  "calls_during st st' = drop (length (rpc_calls st)) (rpc_calls st')"

text \<open>
  C1 as it is stated, for a header hash and an effective target that the source never
  computes, whatever functions of the state, the session and the five fields of the share
  they are. While a job exists and the socket works: a share whose hash exceeds the target
  is not answered with the success response and no \<^verbatim>\<open>submitblock\<close> is issued; a share
  whose hash equals the target is answered with the success response.
\<close>

definition share_claim ::
  "(proxy \<Rightarrow> sock \<Rightarrow> json list \<Rightarrow> nat) \<Rightarrow> (proxy \<Rightarrow> sock \<Rightarrow> nat) \<Rightarrow> bool" where
  "share_claim header_hash effective_target =
     (\<forall>st c i w j x2 nt n e.
        truthy (current_block st) \<and> c \<notin> broken st \<longrightarrow>
          (effective_target st c < header_hash st c [w, j, x2, nt, n] \<longrightarrow>
             (c, response i (JBool True))
               \<notin> set (sent_during st (fst (handle_submit st c i w j x2 nt n e)))
             \<and> ''submitblock''
               \<notin> set (map fst (calls_during st (fst (handle_submit st c i w j x2 nt n e)))))
          \<and> (header_hash st c [w, j, x2, nt, n] = effective_target st c \<longrightarrow>
             (c, response i (JBool True))
               \<in> set (sent_during st (fst (handle_submit st c i w j x2 nt n e)))))"

section \<open>Concrete states and messages\<close>

text \<open>
  The states and messages the properties are evaluated at: one or two connected miners,
  a miner that is authorized and holds a job, a node that refuses the connection and a node
  that answers with the template already cached.
\<close>

text \<open>
  The node refuses the connection; no refresh is drawn; the random draws are 0, 1, 2, ...
\<close>

definition env0 :: env where
  "env0 = \<lparr>http = ConnectionRefused, now = 1700000000, roll = 1 / 2, pick = (\<lambda>k. k)\<rparr>"



text \<open>
  A block template as the node gives it.
\<close>

definition template0 :: "(string \<times> json) list" where
  "template0 =
     [(''version'', JInt 536870912),
      (''previousblockhash'',
       JStr ''00000000000000000001a2b3c4d5e6f708192a3b4c5d6e7f8091a2b3c4d5e6f7''),
      (''transactions'', JArr []),
      (''curtime'', JInt 1700000000),
      (''bits'', JStr ''17034219''),
      (''height'', JInt 820000)]"

text \<open>
  Miner 1 is authorized as \<^verbatim>\<open>w\<close>; the template above is cached as job 1.
\<close>

definition mining :: proxy where
  "mining =
     \<lparr>clients = [1],
      heap = (\<lambda>_. \<lparr>address = [], buffer = [], username = JNull\<rparr>)
               (1 := \<lparr>address = ''10.0.0.1'', buffer = [], username = JStr ''w''\<rparr>),
      broken = {}, outbox = [], rpc_calls = [], logged = [],
      difficulty = JInt 1, job_id = 1, current_block = JObj template0,
      current_transactions = JArr [], extranonce1 = Some ''01234567''\<rparr>"

text \<open>
  The node answers the RPC with the template above.
\<close>

definition env_same :: env where
  "env_same =
     \<lparr>http = Response 200
               (Some (JObj [(''result'', JObj template0), (''error'', JNull),
                            (''id'', JStr ''proxy'')])),
      now = 1700000000, roll = 1 / 2, pick = (\<lambda>k. k)\<rparr>"

text \<open>
  A share: worker, job id, extranonce2, ntime, nonce.
\<close>

definition submit_msg :: json where
  "submit_msg =
     JObj [(''id'', JInt 4), (''method'', JStr ''mining.submit''),
           (''params'', JArr [JStr ''w'', JStr ''1'', JStr ''00000000'', JStr ''6553f100'',
                             JStr ''deadbeef''])]"




section \<open>The byte-order transform\<close>

lemma nat_less_16_cases:
  "n < 16 \<Longrightarrow> n \<in> set [15, 14, 13, 12, 11, 10, 9, 8, 7, 6, 5, 4, 3, 2, 1, 0 :: nat]"
  by (simp, arith)

lemma of_char_hexdigit:
  assumes "n < 16"
  shows "(of_char (hexdigit n) :: nat) = (if n < 10 then 48 + n else 87 + n)"
  using nat_less_16_cases [OF assms] by (simp, elim disjE) (simp_all add: hexdigit_def)

lemma digit_value_hexdigit: "n < 16 \<Longrightarrow> digit_value (hexdigit n) = Some n"
  by (simp add: digit_value_def of_char_hexdigit)

lemma not_space_hexdigit: "n < 16 \<Longrightarrow> \<not> is_space (hexdigit n)"
  by (simp add: is_space_def of_char_hexdigit)

lemma lower_hexdigit_value:
  assumes "is_lower_hexdigit c"
  shows "\<exists>n<16. c = hexdigit n"
proof -
  define m where "m = (of_char c :: nat)"
  define n where "n = (if m \<le> 57 then m - 48 else m - 87)"
  from assms have n: "n < 16" and m: "m = (if n < 10 then 48 + n else 87 + n)"
    by (auto simp: is_lower_hexdigit_def m_def n_def Let_def)
  have "(of_char (hexdigit n) :: nat) = of_char c"
    using of_char_hexdigit [OF n] m by (simp add: m_def)
  then have "c = hexdigit n" by simp
  with n show ?thesis by blast
qed

lemma byte_of_digits: "(of_nat (unat b div 16 * 16 + unat b mod 16) :: byte) = b"
  by simp

lemma fromhex_tohex: "fromhex (tohex bs) = Inr bs"
proof (induction bs)
  case Nil
  show ?case by simp
next
  case (Cons b bs)
  have "unat b < 2 ^ LENGTH(8)" by (rule unsigned_less)
  then have hi: "unat b div 16 < 16" and lo: "unat b mod 16 < 16" by auto
  show ?case
    using Cons byte_of_digits [of b]
    by (simp add: digit_value_hexdigit [OF hi] digit_value_hexdigit [OF lo]
        not_space_hexdigit [OF hi])
qed

lemma unat_byte_digits:
  assumes "hi < 16" and "lo < 16"
  shows "unat (of_nat (hi * 16 + lo) :: byte) = hi * 16 + lo"
proof -
  have "unat (of_nat (hi * 16 + lo) :: byte) = (hi * 16 + lo) mod 2 ^ LENGTH(8)"
    by (rule unat_of_nat)
  also have "\<dots> = hi * 16 + lo" using assms by simp
  finally show ?thesis .
qed

lemma tohex_byte_digits:
  assumes "hi < 16" and "lo < 16"
  shows "tohex ((of_nat (hi * 16 + lo) :: byte) # bs) = hexdigit hi # hexdigit lo # tohex bs"
proof -
  have "(hi * 16 + lo) div 16 = hi" and "(hi * 16 + lo) mod 16 = lo"
    using assms by simp_all
  then show ?thesis
    by (simp only: tohex.simps unat_byte_digits [OF assms])
qed

lemma tohex_fromhex_lower:
  "lower_hex s \<Longrightarrow> even (length s) \<Longrightarrow> \<exists>bs. fromhex s = Inr bs \<and> tohex bs = s"
proof (induction s rule: fromhex.induct)
  case 1
  show ?case by simp
next
  case (2 c)
  then show ?case by simp
next
  case (3 c d cs)
  from "3.prems" obtain hi lo
    where hi: "hi < 16" "c = hexdigit hi" and lo: "lo < 16" "d = hexdigit lo"
    using lower_hexdigit_value [of c] lower_hexdigit_value [of d]
    by (auto simp: lower_hex_def)
  from "3.prems" have "lower_hex cs" "even (length cs)"
    by (simp_all add: lower_hex_def)
  with "3.IH"(2) [of "Some hi" "Some lo" hi lo] hi lo
  obtain bs where bs: "fromhex cs = Inr bs" "tohex bs = cs"
    by (auto simp: digit_value_hexdigit not_space_hexdigit)
  have "fromhex (c # d # cs) = Inr (of_nat (hi * 16 + lo) # bs)"
    using hi lo bs by (simp add: digit_value_hexdigit not_space_hexdigit)
  moreover have "tohex ((of_nat (hi * 16 + lo) :: byte) # bs) = c # d # cs"
    using hi lo bs by (simp only: tohex_byte_digits)
  ultimately show ?case by blast
qed

lemma length_tohex: "length (tohex bs) = 2 * length bs"
  by (induction bs) simp_all

text \<open>
  C9, as amended. The byte-order transform of \<^verbatim>\<open>send_job\<close> (decode the hexadecimal
  string, reverse the bytes, encode them), applied twice to a string that
  \<^verbatim>\<open>bytes.fromhex\<close> accepts, returns the lower-case hexadecimal form of the same bytes;
  applied twice to a 4-byte string of lower-case hexadecimal digits, it returns the string
  itself.
\<close>

theorem reverse_hex_twice:
  "(\<forall>bs. fromhex s = Inr bs \<longrightarrow>
      reverse_hex s = Inr (tohex (rev bs)) \<and>
      reverse_hex (tohex (rev bs)) = Inr (tohex bs) \<and>
      fromhex (tohex bs) = Inr bs) \<and>
   (lower_hex s \<and> length s = 8 \<longrightarrow>
      (\<exists>t. reverse_hex s = Inr t \<and> reverse_hex t = Inr s))"
proof (intro conjI allI impI)
  fix bs
  assume "fromhex s = Inr bs"
  then show "reverse_hex s = Inr (tohex (rev bs))"
    and "reverse_hex (tohex (rev bs)) = Inr (tohex bs)"
    and "fromhex (tohex bs) = Inr bs"
    by (simp_all add: reverse_hex_def fromhex_tohex)
next
  assume "lower_hex s \<and> length s = 8"
  then obtain bs where bs: "fromhex s = Inr bs" "tohex bs = s"
    using tohex_fromhex_lower [of s] by auto
  then have "reverse_hex s = Inr (tohex (rev bs))" "reverse_hex (tohex (rev bs)) = Inr s"
    by (simp_all add: reverse_hex_def fromhex_tohex)
  then show "\<exists>t. reverse_hex s = Inr t \<and> reverse_hex t = Inr s"
    by blast
qed

text \<open>
  The bits \<^verbatim>\<open>1d00ffff\<close>: four bytes in lower-case digits, reversed to
  \<^verbatim>\<open>ffff001d\<close> and back.
\<close>

theorem reverse_hex_twice_witness:
  "fromhex ''1d00ffff'' = Inr [0x1d, 0x00, 0xff, 0xff] \<and> lower_hex ''1d00ffff''
   \<and> length ''1d00ffff'' = 8
   \<and> reverse_hex ''1d00ffff'' = Inr ''ffff001d'' \<and> reverse_hex ''ffff001d'' = Inr ''1d00ffff''"
proof -
  have a: "fromhex ''1d00ffff'' = Inr [0x1d, 0x00, 0xff, 0xff]"
    by (simp add: digit_value_def is_space_def)
  have b: "lower_hex ''1d00ffff'' \<and> length ''1d00ffff'' = 8"
    by (simp add: lower_hex_def is_lower_hexdigit_def)
  have c: "tohex (rev [0x1d, 0x00, 0xff, 0xff]) = ''ffff001d''"
    and d: "tohex [0x1d, 0x00, 0xff, 0xff] = ''1d00ffff''"
    by (simp_all add: hexdigit_def)
  from reverse_hex_twice [of "''1d00ffff''"] a c d b show ?thesis
    by simp
qed

text \<open>
  C9 as stated fails on a 4-byte string with upper-case digits: \<^verbatim>\<open>hex()\<close> writes
  lower-case digits, so the second application returns \<^verbatim>\<open>abcdef01\<close>, not the string
  it started from.
\<close>

theorem reverse_hex_upper_case:
  "reverse_hex ''ABCDEF01'' = Inr ''01efcdab'' \<and> reverse_hex ''01efcdab'' = Inr ''abcdef01''
   \<and> ''abcdef01'' \<noteq> ''ABCDEF01''"
  by (simp add: reverse_hex_def digit_value_def is_space_def hexdigit_def)

section \<open>What the sending functions leave alone\<close>

lemma log_msg_fields [simp]:
  "clients (log_msg l m a st) = clients st"
  "heap (log_msg l m a st) = heap st"
  "broken (log_msg l m a st) = broken st"
  "outbox (log_msg l m a st) = outbox st"
  "rpc_calls (log_msg l m a st) = rpc_calls st"
  "difficulty (log_msg l m a st) = difficulty st"
  "job_id (log_msg l m a st) = job_id st"
  "current_block (log_msg l m a st) = current_block st"
  "current_transactions (log_msg l m a st) = current_transactions st"
  "extranonce1 (log_msg l m a st) = extranonce1 st"
  "logged (log_msg l m a st) = logged st @ [(l, m, a)]"
  by (simp_all add: log_msg_def)

lemma remove_client_fields [simp]:
  "heap (remove_client st c) = heap st"
  "outbox (remove_client st c) = outbox st"
  "rpc_calls (remove_client st c) = rpc_calls st"
  "difficulty (remove_client st c) = difficulty st"
  "job_id (remove_client st c) = job_id st"
  "current_block (remove_client st c) = current_block st"
  "current_transactions (remove_client st c) = current_transactions st"
  "extranonce1 (remove_client st c) = extranonce1 st"
  by (simp_all add: remove_client_def)

lemma send_to_client_fields [simp]:
  "heap (send_to_client st c m) = heap st"
  "rpc_calls (send_to_client st c m) = rpc_calls st"
  "difficulty (send_to_client st c m) = difficulty st"
  "job_id (send_to_client st c m) = job_id st"
  "current_block (send_to_client st c m) = current_block st"
  "current_transactions (send_to_client st c m) = current_transactions st"
  "extranonce1 (send_to_client st c m) = extranonce1 st"
  by (simp_all add: send_to_client_def)


lemma outbox_send_to_client:
  "outbox (send_to_client st c m) = outbox st @ (if c \<in> broken st then [] else [(c, m)])"
  by (simp add: send_to_client_def)

text \<open>The state \<^verbatim>\<open>send_job\<close> leaves, and whether it raised, as two functions.\<close>

lemma send_job_fields [simp]:
  "heap (fst (send_job st c e)) = heap st"
  "rpc_calls (fst (send_job st c e)) = rpc_calls st"
  "difficulty (fst (send_job st c e)) = difficulty st"
  "job_id (fst (send_job st c e)) = job_id st"
  "current_block (fst (send_job st c e)) = current_block st"
  "current_transactions (fst (send_job st c e)) = current_transactions st"
  "extranonce1 (fst (send_job st c e)) = extranonce1 st"
  by (simp_all add: send_job_def Let_def split: json.splits sum.splits option.splits)

lemma notify_clients_unfold:
  "\<not> i < length (clients st) \<Longrightarrow> notify_clients st i e = (st, None)"
  "i < length (clients st) \<Longrightarrow> \<not> truthy (username (heap st (clients st ! i))) \<Longrightarrow>
     notify_clients st i e = notify_clients st (Suc i) e"
  "i < length (clients st) \<Longrightarrow> truthy (username (heap st (clients st ! i))) \<Longrightarrow>
     send_job st (clients st ! i) e = (st', Some x) \<Longrightarrow> notify_clients st i e = (st', Some x)"
  "i < length (clients st) \<Longrightarrow> truthy (username (heap st (clients st ! i))) \<Longrightarrow>
     send_job st (clients st ! i) e = (st', None) \<Longrightarrow>
     notify_clients st i e = notify_clients st' (Suc i) e"
  by (simp_all add: notify_clients.simps [of st i e])

text \<open>
  A relation between states that every \<^verbatim>\<open>send_job\<close> respects, and that is reflexive
  and transitive, holds between the start and the end of the loop.
\<close>

lemma notify_clients_rel:
  assumes r_refl: "\<And>s. R s s"
    and r_trans: "\<And>a b c. R a b \<Longrightarrow> R b c \<Longrightarrow> R a c"
    and r_step: "\<And>s c e. R s (fst (send_job s c e))"
  shows "R st (fst (notify_clients st i e))"
proof (induction st i e rule: notify_clients.induct)
  case (1 st i e)
  show ?case
  proof (cases "i < length (clients st)")
    case False
    then show ?thesis by (simp add: notify_clients_unfold(1) r_refl)
  next
    case True
    note i = this
    show ?thesis
    proof (cases "truthy (username (heap st (clients st ! i)))")
      case False
      with i "1.IH"(2) [OF i refl] show ?thesis
        by (simp add: notify_clients_unfold(2))
    next
      case True
      note u = this
      obtain st' r where sj: "send_job st (clients st ! i) e = (st', r)"
        by (cases "send_job st (clients st ! i) e")
      have r1: "R st st'" using r_step [of st "clients st ! i" e] by (simp add: sj)
      show ?thesis
      proof (cases r)
        case (Some x)
        with i u sj r1 show ?thesis
          by (simp add: notify_clients_unfold(3))
      next
        case None
        have "R st' (fst (notify_clients st' (Suc i) e))"
          using "1.IH"(1) [OF i refl u sj [symmetric]] None by simp
        with r1 have "R st (fst (notify_clients st' (Suc i) e))"
          by (rule r_trans)
        with i u sj None show ?thesis
          by (simp add: notify_clients_unfold(4))
      qed
    qed
  qed
qed

lemma notify_clients_fields [simp]:
  "heap (fst (notify_clients st i e)) = heap st"
  "rpc_calls (fst (notify_clients st i e)) = rpc_calls st"
  "difficulty (fst (notify_clients st i e)) = difficulty st"
  "job_id (fst (notify_clients st i e)) = job_id st"
  "current_block (fst (notify_clients st i e)) = current_block st"
  "current_transactions (fst (notify_clients st i e)) = current_transactions st"
  "extranonce1 (fst (notify_clients st i e)) = extranonce1 st"
proof -
  have "heap (fst (notify_clients st i e)) = heap st \<and>
    rpc_calls (fst (notify_clients st i e)) = rpc_calls st \<and>
    difficulty (fst (notify_clients st i e)) = difficulty st \<and>
    job_id (fst (notify_clients st i e)) = job_id st \<and>
    current_block (fst (notify_clients st i e)) = current_block st \<and>
    current_transactions (fst (notify_clients st i e)) = current_transactions st \<and>
    extranonce1 (fst (notify_clients st i e)) = extranonce1 st"
    by (rule notify_clients_rel
         [where R = "\<lambda>s s'. heap s' = heap s \<and> rpc_calls s' = rpc_calls s \<and>
            difficulty s' = difficulty s \<and> job_id s' = job_id s \<and>
            current_block s' = current_block s \<and>
            current_transactions s' = current_transactions s \<and>
            extranonce1 s' = extranonce1 s"]) simp_all
  then show
    "heap (fst (notify_clients st i e)) = heap st"
    "rpc_calls (fst (notify_clients st i e)) = rpc_calls st"
    "difficulty (fst (notify_clients st i e)) = difficulty st"
    "job_id (fst (notify_clients st i e)) = job_id st"
    "current_block (fst (notify_clients st i e)) = current_block st"
    "current_transactions (fst (notify_clients st i e)) = current_transactions st"
    "extranonce1 (fst (notify_clients st i e)) = extranonce1 st"
    by simp_all
qed

lemma grows_refl [simp]: "grows xs xs"
  by (simp add: grows_def)

lemma grows_trans: "grows xs ys \<Longrightarrow> grows ys zs \<Longrightarrow> grows xs zs"
  by (auto simp: grows_def)

lemma grows_append [simp]: "grows xs (xs @ zs)"
  by (simp add: grows_def)

lemma outbox_send_job: "grows (outbox st) (outbox (fst (send_job st c e)))"
  by (simp add: send_job_def Let_def outbox_send_to_client
      split: json.splits sum.splits option.splits)

lemma outbox_notify_clients: "grows (outbox st) (outbox (fst (notify_clients st i e)))"
  by (rule notify_clients_rel [where R = "\<lambda>s s'. grows (outbox s) (outbox s')"])
    (auto intro: grows_trans outbox_send_job)

section \<open>Fetching a template\<close>

lemma rpc_result_fields [simp]:
  "clients (fst (rpc_result st r)) = clients st"
  "heap (fst (rpc_result st r)) = heap st"
  "broken (fst (rpc_result st r)) = broken st"
  "outbox (fst (rpc_result st r)) = outbox st"
  "rpc_calls (fst (rpc_result st r)) = rpc_calls st"
  "difficulty (fst (rpc_result st r)) = difficulty st"
  "job_id (fst (rpc_result st r)) = job_id st"
  "current_block (fst (rpc_result st r)) = current_block st"
  "current_transactions (fst (rpc_result st r)) = current_transactions st"
  "extranonce1 (fst (rpc_result st r)) = extranonce1 st"
  by (cases r; simp add: Let_def split: json.splits option.splits)+

lemma bitcoin_rpc_fields [simp]:
  "clients (fst (bitcoin_rpc st m p h)) = clients st"
  "heap (fst (bitcoin_rpc st m p h)) = heap st"
  "broken (fst (bitcoin_rpc st m p h)) = broken st"
  "outbox (fst (bitcoin_rpc st m p h)) = outbox st"
  "rpc_calls (fst (bitcoin_rpc st m p h)) = rpc_calls st @ [(m, p)]"
  "difficulty (fst (bitcoin_rpc st m p h)) = difficulty st"
  "job_id (fst (bitcoin_rpc st m p h)) = job_id st"
  "current_block (fst (bitcoin_rpc st m p h)) = current_block st"
  "current_transactions (fst (bitcoin_rpc st m p h)) = current_transactions st"
  "extranonce1 (fst (bitcoin_rpc st m p h)) = extranonce1 st"
  by (simp_all add: bitcoin_rpc_def Let_def split: http_outcome.splits option.splits)

text \<open>The outcome of the RPC does not depend on the proxy's state.\<close>

lemma snd_rpc_result: "snd (rpc_result st r) = snd (rpc_result st' r)"
  by (cases r) (simp_all add: Let_def split: json.splits option.splits)

lemma snd_bitcoin_rpc: "snd (bitcoin_rpc st m p h) = rpc_value h"
proof (cases h)
  case (Response status body)
  show ?thesis
  proof (cases body)
    case None
    with Response show ?thesis by (simp add: bitcoin_rpc_def rpc_value_def Let_def)
  next
    case (Some r)
    with Response show ?thesis
      using snd_rpc_result [of "st\<lparr>rpc_calls := rpc_calls st @ [(m, p)]\<rparr>" r
          "initial\<lparr>rpc_calls := rpc_calls initial @ [(''getblocktemplate'', JNull)]\<rparr>"]
      by (simp add: bitcoin_rpc_def rpc_value_def Let_def)
  qed
qed (simp_all add: bitcoin_rpc_def rpc_value_def Let_def)

lemma get_block_template_eq:
  "get_block_template st e =
     (case installed_template (http e) (now e) of
        JObj kvs \<Rightarrow> notify_clients (before_notify st e) 0 e
      | _ \<Rightarrow> (before_notify st e, Some AttributeError))"
proof -
  obtain st1 fetched
    where rpc: "bitcoin_rpc st ''getblocktemplate'' template_request (http e) = (st1, fetched)"
    by (cases "bitcoin_rpc st ''getblocktemplate'' template_request (http e)")
  have fetched: "fetched = rpc_value (http e)"
    using snd_bitcoin_rpc [of st "''getblocktemplate''" template_request "http e"] rpc by simp
  show ?thesis
    using rpc
    by (cases "installed_template (http e) (now e)")
      (simp_all add: get_block_template_def before_notify_def installed_template_def
        fetched Let_def)
qed

lemma before_notify_fields [simp]:
  "clients (before_notify st e) = clients st"
  "heap (before_notify st e) = heap st"
  "broken (before_notify st e) = broken st"
  "outbox (before_notify st e) = outbox st"
  "rpc_calls (before_notify st e) = rpc_calls st @ [(''getblocktemplate'', template_request)]"
  "difficulty (before_notify st e) = difficulty st"
  "extranonce1 (before_notify st e) = extranonce1 st"
  "current_block (before_notify st e) = installed_template (http e) (now e)"
  by (simp_all add: before_notify_def Let_def split: json.splits)

lemma job_id_before_notify:
  "job_id (before_notify st e) =
     (case installed_template (http e) (now e) of JObj kvs \<Rightarrow> job_id st + 1 | _ \<Rightarrow> job_id st)"
  by (simp add: before_notify_def Let_def split: json.splits)

lemma get_block_template_fields [simp]:
  "heap (fst (get_block_template st e)) = heap st"
  "difficulty (fst (get_block_template st e)) = difficulty st"
  "extranonce1 (fst (get_block_template st e)) = extranonce1 st"
  "rpc_calls (fst (get_block_template st e)) =
     rpc_calls st @ [(''getblocktemplate'', template_request)]"
  "current_block (fst (get_block_template st e)) = installed_template (http e) (now e)"
  by (simp_all add: get_block_template_eq split: json.splits)

lemma outbox_get_block_template:
  "grows (outbox st) (outbox (fst (get_block_template st e)))"
  using outbox_notify_clients [of "before_notify st e" 0 e]
  by (simp add: get_block_template_eq split: json.splits)

section \<open>The handlers and the dispatcher, branch by branch\<close>

lemma send_job_frameD:
  "send_job st c e = (st', r) \<Longrightarrow>
     heap st' = heap st \<and> difficulty st' = difficulty st \<and> extranonce1 st' = extranonce1 st \<and>
     rpc_calls st' = rpc_calls st \<and> job_id st' = job_id st \<and>
     current_block st' = current_block st \<and> grows (outbox st) (outbox st')"
  using send_job_fields [of st c e] outbox_send_job [of st c e] by simp

lemma get_block_template_frameD:
  "get_block_template st e = (st', r) \<Longrightarrow>
     heap st' = heap st \<and> difficulty st' = difficulty st \<and> extranonce1 st' = extranonce1 st \<and>
     rpc_calls st' = rpc_calls st @ [(''getblocktemplate'', template_request)] \<and>
     grows (outbox st) (outbox st')"
  using get_block_template_fields [of st e] outbox_get_block_template [of st e] by simp

lemma handle_subscribe_fields [simp]:
  "heap (handle_subscribe st c i e) = heap st"
  "difficulty (handle_subscribe st c i e) = difficulty st"
  "rpc_calls (handle_subscribe st c i e) = rpc_calls st"
  "job_id (handle_subscribe st c i e) = job_id st"
  "current_block (handle_subscribe st c i e) = current_block st"
  by (simp_all add: handle_subscribe_def Let_def)

lemma handle_configure_fields [simp]:
  "heap (handle_configure st c i p) = heap st"
  "difficulty (handle_configure st c i p) = difficulty st"
  "rpc_calls (handle_configure st c i p) = rpc_calls st"
  "extranonce1 (handle_configure st c i p) = extranonce1 st"
  by (simp_all add: handle_configure_def)

lemma extranonce1_handle_authorize [simp]:
  "extranonce1 (fst (handle_authorize st c i u p e)) = extranonce1 st"
  by (auto simp: handle_authorize_def Let_def split: prod.splits option.splits if_splits
      dest!: send_job_frameD get_block_template_frameD)

lemma extranonce1_handle_submit [simp]:
  "extranonce1 (fst (handle_submit st c i w j x2 nt n e)) = extranonce1 st"
  by (simp add: handle_submit_def Let_def)

lemma extranonce1_handle_suggest_difficulty [simp]:
  "extranonce1 (fst (handle_suggest_difficulty st c i p)) = extranonce1 st"
  by (simp add: handle_suggest_difficulty_def Let_def split: sum.splits)

lemma extranonce1_caught [simp]: "extranonce1 (caught c r) = extranonce1 (fst r)"
  by (simp add: caught_def split: prod.splits option.splits)

lemma fresh_extranonce_not_empty [simp]: "fresh_extranonce p \<noteq> []"
  by (simp add: fresh_extranonce_def)



lemma handle_message_authorize:
  "dget kvs ''method'' (JStr []) = JStr ''mining.authorize'' \<Longrightarrow>
     handle_message st c (JObj kvs) e =
       caught c
         (case py_len (dget kvs ''params'' (JArr [])) of
            Inl x \<Rightarrow> (st, Some x)
          | Inr n \<Rightarrow>
              if 2 \<le> n then
                (case py_index (dget kvs ''params'' (JArr [])) 0 of
                   Inl x \<Rightarrow> (st, Some x)
                 | Inr p0 \<Rightarrow>
                     (case py_index (dget kvs ''params'' (JArr [])) 1 of
                        Inl x \<Rightarrow> (st, Some x)
                      | Inr p1 \<Rightarrow>
                          handle_authorize st c (dget kvs ''id'' (JInt 0)) p0 p1 e))
              else (st, None))"
  by (simp add: handle_message_def Let_def)

lemma handle_message_submit:
  "dget kvs ''method'' (JStr []) = JStr ''mining.submit'' \<Longrightarrow>
     handle_message st c (JObj kvs) e =
       caught c
         (case py_len (dget kvs ''params'' (JArr [])) of
            Inl x \<Rightarrow> (st, Some x)
          | Inr n \<Rightarrow>
              if 5 \<le> n then
                (case py_index (dget kvs ''params'' (JArr [])) 0 of
                   Inl x \<Rightarrow> (st, Some x) | Inr p0 \<Rightarrow>
                (case py_index (dget kvs ''params'' (JArr [])) 1 of
                   Inl x \<Rightarrow> (st, Some x) | Inr p1 \<Rightarrow>
                (case py_index (dget kvs ''params'' (JArr [])) 2 of
                   Inl x \<Rightarrow> (st, Some x) | Inr p2 \<Rightarrow>
                (case py_index (dget kvs ''params'' (JArr [])) 3 of
                   Inl x \<Rightarrow> (st, Some x) | Inr p3 \<Rightarrow>
                (case py_index (dget kvs ''params'' (JArr [])) 4 of
                   Inl x \<Rightarrow> (st, Some x) | Inr p4 \<Rightarrow>
                   handle_submit st c (dget kvs ''id'' (JInt 0)) p0 p1 p2 p3 p4 e)))))
              else (st, None))"
  by (simp add: handle_message_def Let_def)








section \<open>Short parameter lists and unknown methods\<close>

text \<open>
  C10. A \<^verbatim>\<open>mining.authorize\<close> whose params have fewer than two elements, and a
  \<^verbatim>\<open>mining.submit\<close> whose params have fewer than five, leave the whole state as it
  was: no handler runs, nothing is sent to the client, nothing is logged, and the client
  stays in the list with its socket open.
\<close>

theorem short_params_dropped:
  "(dget kvs ''method'' (JStr []) = JStr ''mining.authorize'' \<and>
    py_len (dget kvs ''params'' (JArr [])) = Inr n \<and> n < 2 \<longrightarrow>
      handle_message st c (JObj kvs) e = st) \<and>
   (dget kvs ''method'' (JStr []) = JStr ''mining.submit'' \<and>
    py_len (dget kvs ''params'' (JArr [])) = Inr n \<and> n < 5 \<longrightarrow>
      handle_message st c (JObj kvs) e = st)"
  by (simp add: handle_message_authorize handle_message_submit caught_def)

text \<open>
  An authorize with one param and a submit with four, from a freshly connected miner.
\<close>

theorem short_params_dropped_witness:
  "dget [(''id'', JInt 2), (''method'', JStr ''mining.authorize''), (''params'', JArr [JStr ''w''])]
     ''method'' (JStr []) = JStr ''mining.authorize''
   \<and> py_len (JArr [JStr ''w'']) = Inr 1
   \<and> handle_message (connect initial 1 ''10.0.0.1'') 1
        (JObj [(''id'', JInt 2), (''method'', JStr ''mining.authorize''),
               (''params'', JArr [JStr ''w''])]) env0
       = connect initial 1 ''10.0.0.1''
   \<and> handle_message (connect initial 1 ''10.0.0.1'') 1
        (JObj [(''id'', JInt 4), (''method'', JStr ''mining.submit''),
               (''params'', JArr [JStr ''w'', JStr ''1'', JStr ''00000000'', JStr ''6553f100''])])
        env0
       = connect initial 1 ''10.0.0.1''"
  using short_params_dropped
      [of "[(''id'', JInt 2), (''method'', JStr ''mining.authorize''),
            (''params'', JArr [JStr ''w''])]" 1 "connect initial 1 ''10.0.0.1''" 1 env0]
    short_params_dropped
      [of "[(''id'', JInt 4), (''method'', JStr ''mining.submit''),
            (''params'', JArr [JStr ''w'', JStr ''1'', JStr ''00000000'', JStr ''6553f100''])]"
          4 "connect initial 1 ''10.0.0.1''" 1 env0]
  by (simp add: dget_def)




section \<open>Subscribing\<close>





lemmas run_defs =
  handle_message_def handle_subscribe_def handle_authorize_def handle_submit_def
  handle_configure_def handle_suggest_difficulty_def caught_def send_to_client_def
  remove_client_def log_msg_def response_def subscribe_result_def extranonce2_size_def
  difficulty_notification_def template_request_def fresh_extranonce_def hexdigit_def dget_def
  connect_def initial_def Let_def


section \<open>The broadcast of a job\<close>

lemma send_job_ok:
  assumes "current_block st = JObj blk" and "blk \<noteq> []"
    and "job_fields blk (now e) = Inr (Some f)" and "c \<notin> broken st"
  shows "send_job st c e =
     (st\<lparr>logged := logged st @ [job_log st f c],
         outbox := outbox st @ [(c, job_notification (job_id st) f)]\<rparr>, None)"
  using assms by (simp add: send_job_def send_to_client_def log_msg_def job_log_def)

lemma notify_clients_all:
  assumes "current_block st = JObj blk" and "blk \<noteq> []"
    and "job_fields blk (now e) = Inr (Some f)"
    and "\<forall>c\<in>set (clients st). c \<notin> broken st"
  shows "outbox (fst (notify_clients st i e)) =
       outbox st @ map (\<lambda>c. (c, job_notification (job_id st) f))
                     (filter (authorized st) (drop i (clients st)))
     \<and> snd (notify_clients st i e) = None
     \<and> clients (fst (notify_clients st i e)) = clients st
     \<and> broken (fst (notify_clients st i e)) = broken st"
  using assms
proof (induction st i e rule: notify_clients.induct)
  case (1 st i e)
  show ?case
  proof (cases "i < length (clients st)")
    case False
    then show ?thesis by (simp add: notify_clients_unfold(1))
  next
    case True
    note i = this
    have dr: "drop i (clients st) = clients st ! i # drop (Suc i) (clients st)"
      using i by (simp add: Cons_nth_drop_Suc)
    show ?thesis
    proof (cases "truthy (username (heap st (clients st ! i)))")
      case False
      with i "1.IH"(2) [OF i HOL.refl] "1.prems" show ?thesis
        by (simp add: notify_clients_unfold(2) dr authorized_def)
    next
      case True
      note u = this
      define st' where "st' = st\<lparr>logged := logged st @ [job_log st f (clients st ! i)],
         outbox := outbox st @ [(clients st ! i, job_notification (job_id st) f)]\<rparr>"
      have "clients st ! i \<notin> broken st"
        using i "1.prems"(4) by simp
      then have sj: "send_job st (clients st ! i) e = (st', None)"
        using send_job_ok [OF "1.prems"(1,2,3)] by (simp add: st'_def)
      have ih: "outbox (fst (notify_clients st' (Suc i) e)) =
           outbox st' @ map (\<lambda>c. (c, job_notification (job_id st') f))
                         (filter (authorized st') (drop (Suc i) (clients st')))
         \<and> snd (notify_clients st' (Suc i) e) = None
         \<and> clients (fst (notify_clients st' (Suc i) e)) = clients st'
         \<and> broken (fst (notify_clients st' (Suc i) e)) = broken st'"
        using "1.IH"(1) [OF i HOL.refl u sj [symmetric] HOL.refl] "1.prems"
        by (simp add: st'_def)
      have au: "authorized st' = authorized st"
        by (simp add: authorized_def st'_def fun_eq_iff)
      show ?thesis
        using ih u
        by (simp add: notify_clients_unfold(4) [OF i u sj] dr au)
          (simp add: st'_def authorized_def)
    qed
  qed
qed

lemma job_fields_template0:
  "job_fields template0 t =
     Inr (Some (''f7e6d5c4b3a291807f6e5d4c3b2a1908f7e6d5c4b3a201000000000000000000'',
                ''00000020'', ''19420317'', ''00f15365''))"
  by (simp add: template0_def dget_def job_fields_def reverse_hex_def digit_value_def is_space_def
      format_08x_def zfill_def hexstr.simps hexdigit_def Let_def)

section \<open>What a template fetch sends and logs\<close>

lemma appended_refl [simp]: "appended P xs xs"
  by (simp add: appended_def)

lemma appended_trans: "appended P xs ys \<Longrightarrow> appended P ys zs \<Longrightarrow> appended P xs zs"
  by (auto simp: appended_def)

lemma appended_grows: "appended P xs ys \<Longrightarrow> grows xs ys"
  by (auto simp: appended_def grows_def)

lemma is_notify_job_notification [simp]: "is_notify (c, job_notification jid f)"
  by (cases f) (simp add: is_notify_def job_notification_def dget_def)

lemma notified_send_job: "appended is_notify (outbox st) (outbox (fst (send_job st c e)))"
  by (simp add: send_job_def Let_def outbox_send_to_client appended_def
      split: json.splits sum.splits option.splits)

lemma notified_notify_clients:
  "appended is_notify (outbox st) (outbox (fst (notify_clients st i e)))"
  by (rule notify_clients_rel [where R = "\<lambda>s s'. appended is_notify (outbox s) (outbox s')"])
    (auto intro: appended_trans notified_send_job)

lemma notified_get_block_template:
  "appended is_notify (outbox st) (outbox (fst (get_block_template st e)))"
  using notified_notify_clients [of "before_notify st e" 0 e]
  by (simp add: get_block_template_eq split: json.splits)

text \<open>The log only grows.\<close>

lemma logged_send_to_client: "grows (logged st) (logged (send_to_client st c m))"
  by (simp add: send_to_client_def remove_client_def log_msg_def grows_def)



lemma job_id_get_block_template:
  "job_id (fst (get_block_template st e)) =
     (case installed_template (http e) (now e) of JObj kvs \<Rightarrow> job_id st + 1 | _ \<Rightarrow> job_id st)"
  by (simp add: get_block_template_eq job_id_before_notify split: json.splits)

lemma current_transactions_get_block_template:
  "installed_template (http e) (now e) = JObj kvs \<Longrightarrow>
     current_transactions (fst (get_block_template st e)) = dget kvs ''transactions'' (JArr [])"
  by (simp add: get_block_template_eq before_notify_def Let_def)

lemma broadcast_get_block_template:
  assumes "installed_template (http e) (now e) = JObj kvs" and "kvs \<noteq> []"
    and "job_fields kvs (now e) = Inr (Some f)"
    and "\<forall>c\<in>set (clients st). c \<notin> broken st"
  shows "outbox (fst (get_block_template st e)) =
       outbox st @ map (\<lambda>c. (c, job_notification (job_id st + 1) f))
                     (filter (authorized st) (clients st))
     \<and> snd (get_block_template st e) = None"
proof -
  have a: "authorized (before_notify st e) = authorized st"
    by (simp add: authorized_def fun_eq_iff)
  have "job_fields kvs (now e) = Inr (Some f)" by fact
  from notify_clients_all [of "before_notify st e" kvs e f 0, OF _ assms(2) this]
  show ?thesis
    using assms by (simp add: get_block_template_eq job_id_before_notify a)
qed


section \<open>Every fetch installs a job\<close>

lemma rpc_value_failures [simp]:
  "rpc_value ConnectionRefused = JNull"
  "rpc_value OtherFailure = JNull"
  "status \<noteq> 200 \<Longrightarrow> rpc_value (Response status body) = JNull"
  "rpc_value (Response 200 None) = JNull"
  by (simp_all add: rpc_value_def bitcoin_rpc_def Let_def)

lemma rpc_value_result:
  "rpc_value (Response 200 (Some (JObj [(''result'', r), (''error'', JNull), (''id'', i)]))) = r"
  by (simp add: rpc_value_def bitcoin_rpc_def Let_def dget_def)

lemma installed_env_same: "installed_template (http env_same) (now env_same) = JObj template0"
  by (simp add: installed_template_def env_same_def rpc_value_result)
    (simp add: template0_def)





text \<open>
  C4, as amended. A fetch that brings a template (a non-empty dict) compares it with
  nothing: whether or not it equals the cached one, it becomes \<^verbatim>\<open>current_block\<close>, the
  job id goes up by one, and, when the fields of the notification can be computed and no
  client's socket fails, every client with a user name is sent the job under the new id.
\<close>

theorem every_fetch_is_a_new_job:
  assumes "rpc_value (http e) = JObj kvs" and "kvs \<noteq> []"
  shows "current_block (fst (get_block_template st e)) = JObj kvs
     \<and> job_id (fst (get_block_template st e)) = job_id st + 1
     \<and> current_transactions (fst (get_block_template st e)) = dget kvs ''transactions'' (JArr [])
     \<and> (\<forall>f. job_fields kvs (now e) = Inr (Some f) \<and> (\<forall>c\<in>set (clients st). c \<notin> broken st) \<longrightarrow>
          outbox (fst (get_block_template st e)) =
            outbox st @ map (\<lambda>c. (c, job_notification (job_id st + 1) f))
                          (filter (authorized st) (clients st)))"
proof -
  have i: "installed_template (http e) (now e) = JObj kvs"
    using assms by (simp add: installed_template_def)
  show ?thesis
    using assms(2) broadcast_get_block_template [OF i assms(2)]
    by (simp add: i job_id_get_block_template current_transactions_get_block_template)
qed

text \<open>
  The node answers with the very template that is cached: job 1 becomes job 2 and the
  authorized miner is notified.
\<close>

theorem every_fetch_is_a_new_job_witness:
  "rpc_value (http env_same) = JObj template0 \<and> template0 \<noteq> []
   \<and> current_block mining = JObj template0 \<and> job_id mining = 1
   \<and> broken mining = {}
   \<and> current_block (fst (get_block_template mining env_same)) = JObj template0
   \<and> job_id (fst (get_block_template mining env_same)) = 2
   \<and> outbox (fst (get_block_template mining env_same)) =
       [(1, job_notification 2
              (''f7e6d5c4b3a291807f6e5d4c3b2a1908f7e6d5c4b3a201000000000000000000'',
               ''00000020'', ''19420317'', ''00f15365''))]"
proof -
  have a: "rpc_value (http env_same) = JObj template0"
    by (simp add: env_same_def rpc_value_result)
  have b: "template0 \<noteq> []"
    by (simp add: template0_def)
  have c: "current_block mining = JObj template0 \<and> job_id mining = 1
      \<and> broken mining = {} \<and> outbox mining = []
      \<and> filter (authorized mining) (clients mining) = [1]"
    by (simp add: mining_def authorized_def)
  from every_fetch_is_a_new_job [OF a b, of mining] job_fields_template0 [of "now env_same"] a b c
  show ?thesis by simp
qed

text \<open>
  C4 as stated fails: the fetched template equals the cached one, and still the job id
  goes from 1 to 2 and the job is broadcast.
\<close>

theorem unchanged_template_counterexample:
  "current_block mining = JObj template0 \<and> rpc_value (http env_same) = JObj template0
   \<and> job_id mining = 1 \<and> job_id (fst (get_block_template mining env_same)) = 2
   \<and> outbox mining = []
   \<and> outbox (fst (get_block_template mining env_same)) =
       [(1, job_notification 2
              (''f7e6d5c4b3a291807f6e5d4c3b2a1908f7e6d5c4b3a201000000000000000000'',
               ''00000020'', ''19420317'', ''00f15365''))]"
proof -
  have a: "rpc_value (http env_same) = JObj template0"
    by (simp add: env_same_def rpc_value_result)
  have b: "template0 \<noteq> []"
    by (simp add: template0_def)
  have c: "current_block mining = JObj template0 \<and> job_id mining = 1
      \<and> broken mining = {} \<and> outbox mining = []
      \<and> filter (authorized mining) (clients mining) = [1]"
    by (simp add: mining_def authorized_def)
  from broadcast_get_block_template [OF installed_env_same b job_fields_template0, of mining]
    job_id_get_block_template [of mining env_same] installed_env_same a c
  show ?thesis by simp
qed




section \<open>Share submission\<close>

lemma handle_submit_reply:
  assumes "c \<notin> broken st"
  shows "\<exists>ms. outbox (fst (handle_submit st c i w j x2 nt n e)) =
            outbox st @ (c, response i (JBool True)) # ms \<and> list_all is_notify ms"
proof (cases "roll e < 1 / 10")
  case False
  with assms show ?thesis
    by (simp add: handle_submit_def Let_def outbox_send_to_client)
next
  case True
  define st3 where "st3 = log_msg INFO ''Share accepted from {}'' [w]
     (send_to_client (log_msg INFO ''Share submitted by {}: job_id={}, nonce={}'' [w, j, n] st)
        c (response i (JBool True)))"
  have o: "outbox st3 = outbox st @ [(c, response i (JBool True))]"
    using assms by (simp add: st3_def outbox_send_to_client)
  obtain ms where "outbox (fst (get_block_template st3 e)) = outbox st3 @ ms" "list_all is_notify ms"
    using notified_get_block_template [of st3 e] by (auto simp: appended_def)
  with o True show ?thesis
    by (simp add: handle_submit_def Let_def st3_def [symmetric])
qed

lemma handle_submit_rpc_calls:
  "rpc_calls (fst (handle_submit st c i w j x2 nt n e)) =
     rpc_calls st @ (if roll e < 1 / 10 then [(''getblocktemplate'', template_request)] else [])"
  by (simp add: handle_submit_def Let_def)

text \<open>
  C1, as amended. \<^verbatim>\<open>handle_submit\<close> computes no hash and compares nothing: on a socket
  that takes it, the reply to every submission is the success response, whatever the share
  and whether or not a job exists; whatever else is sent is a job notification; and the
  only RPC the handler may issue is the \<^verbatim>\<open>getblocktemplate\<close> of its one-in-ten
  refresh, so nothing is ever submitted upstream.
\<close>

theorem every_share_accepted:
  "c \<notin> broken st \<Longrightarrow>
     (\<exists>ms. outbox (fst (handle_submit st c i w j x2 nt n e)) =
             outbox st @ (c, response i (JBool True)) # ms \<and> list_all is_notify ms)
     \<and> rpc_calls (fst (handle_submit st c i w j x2 nt n e)) =
         rpc_calls st @ (if roll e < 1 / 10 then [(''getblocktemplate'', template_request)] else [])"
  using handle_submit_reply [of c st i w j x2 nt n e] handle_submit_rpc_calls [of st c i w j x2 nt n e]
  by simp

lemma handle_submit_mining:
  "outbox (fst (handle_submit mining 1 (JInt 4) (JStr ''w'') (JStr ''1'') (JStr ''00000000'')
                  (JStr ''6553f100'') (JStr ''deadbeef'') env0))
     = [(1, JObj [(''id'', JInt 4), (''result'', JBool True), (''error'', JNull)])]"
  by (simp add: mining_def env0_def run_defs)

text \<open>
  A share from the authorized miner, with no refresh drawn.
\<close>

theorem every_share_accepted_witness:
  "1 \<notin> broken mining
   \<and> outbox (fst (handle_submit mining 1 (JInt 4) (JStr ''w'') (JStr ''1'') (JStr ''00000000'')
                    (JStr ''6553f100'') (JStr ''deadbeef'') env0))
       = [(1, response (JInt 4) (JBool True))]
   \<and> rpc_calls (fst (handle_submit mining 1 (JInt 4) (JStr ''w'') (JStr ''1'') (JStr ''00000000'')
                    (JStr ''6553f100'') (JStr ''deadbeef'') env0)) = []"
proof -
  have a: "1 \<notin> broken mining" and b: "\<not> roll env0 < 1 / 10"
    and c: "outbox mining = []" "rpc_calls mining = []"
    by (simp_all add: mining_def env0_def)
  from every_share_accepted [OF a, of "JInt 4" "JStr ''w''" "JStr ''1''" "JStr ''00000000''"
      "JStr ''6553f100''" "JStr ''deadbeef''" env0] a b c handle_submit_mining
  show ?thesis by (simp add: response_def)
qed

text \<open>
  C1 as stated fails. The share below is answered with the success response. So, for any
  header hash and any effective target under which this share exceeds the target (the
  source defines neither), the claim does not hold of \<^verbatim>\<open>handle_submit\<close>.
\<close>

theorem every_share_accepted_counterexample:
  "outbox (fst (handle_submit mining 1 (JInt 4) (JStr ''w'') (JStr ''1'') (JStr ''00000000'')
                  (JStr ''6553f100'') (JStr ''deadbeef'') env0))
     = [(1, JObj [(''id'', JInt 4), (''result'', JBool True), (''error'', JNull)])]
   \<and> \<not> (\<exists>header_hash effective_target.
          effective_target mining 1
            < header_hash mining 1
                [JStr ''w'', JStr ''1'', JStr ''00000000'', JStr ''6553f100'', JStr ''deadbeef'']
          \<and> share_claim header_hash effective_target)"
proof -
  have "outbox mining = []"
    by (simp add: mining_def)
  then have "(1, response (JInt 4) (JBool True))
      \<in> set (sent_during mining (fst (handle_submit mining 1 (JInt 4) (JStr ''w'') (JStr ''1'')
                (JStr ''00000000'') (JStr ''6553f100'') (JStr ''deadbeef'') env0)))"
    unfolding sent_during_def handle_submit_mining by (simp add: response_def)
  moreover have "truthy (current_block mining) \<and> 1 \<notin> broken mining"
    by (simp add: mining_def template0_def)
  ultimately have "\<not> (\<exists>header_hash effective_target.
          effective_target mining 1
            < header_hash mining 1
                [JStr ''w'', JStr ''1'', JStr ''00000000'', JStr ''6553f100'', JStr ''deadbeef'']
          \<and> share_claim header_hash effective_target)"
    unfolding share_claim_def by blast
  with handle_submit_mining show ?thesis
    by (intro conjI)
qed

section \<open>Submitting without authorization\<close>

lemma outbox_caught [simp]: "outbox (caught c r) = outbox (fst r)"
  by (simp add: caught_def split: prod.splits option.splits)

text \<open>
  C2, as amended. The dispatcher does not look at the session's state: a
  \<^verbatim>\<open>mining.submit\<close> with at least five params is passed to \<^verbatim>\<open>handle_submit\<close>,
  authorized or not, and on a socket that takes it the reply is the success response.
\<close>

theorem submit_without_authorize:
  assumes "dget kvs ''method'' (JStr []) = JStr ''mining.submit''"
    and "dget kvs ''params'' (JArr []) = JArr (p0 # p1 # p2 # p3 # p4 # ps)"
  shows "handle_message st c (JObj kvs) e =
       caught c (handle_submit st c (dget kvs ''id'' (JInt 0)) p0 p1 p2 p3 p4 e)
     \<and> (c \<notin> broken st \<longrightarrow>
          (\<exists>ms. outbox (handle_message st c (JObj kvs) e) =
             outbox st @ (c, response (dget kvs ''id'' (JInt 0)) (JBool True)) # ms
             \<and> list_all is_notify ms))"
proof -
  have "handle_message st c (JObj kvs) e =
       caught c (handle_submit st c (dget kvs ''id'' (JInt 0)) p0 p1 p2 p3 p4 e)"
    using assms by (simp add: handle_message_submit)
  then show ?thesis
    using handle_submit_reply [of c st "dget kvs ''id'' (JInt 0)" p0 p1 p2 p3 p4 e] by simp
qed

lemma submit_unauthorized:
  "handle_message (connect initial 1 ''10.0.0.1'') 1 submit_msg env0
   = (connect initial 1 ''10.0.0.1'')
       \<lparr>outbox := [(1, JObj [(''id'', JInt 4), (''result'', JBool True), (''error'', JNull)])],
        logged := [(INFO, ''New client connected: {}'', [JStr ''10.0.0.1'']),
                   (INFO, ''Share submitted by {}: job_id={}, nonce={}'',
                    [JStr ''w'', JStr ''1'', JStr ''deadbeef'']),
                   (INFO, ''Share accepted from {}'', [JStr ''w''])]\<rparr>"
  by (simp add: submit_msg_def env0_def run_defs)

text \<open>
  A miner that has connected and neither subscribed nor authorized submits a share.
\<close>

theorem submit_without_authorize_witness:
  "username (heap (connect initial 1 ''10.0.0.1'') 1) = JNull
   \<and> 1 \<notin> broken (connect initial 1 ''10.0.0.1'')
   \<and> handle_message (connect initial 1 ''10.0.0.1'') 1 submit_msg env0 =
       caught 1 (handle_submit (connect initial 1 ''10.0.0.1'') 1 (JInt 4) (JStr ''w'') (JStr ''1'')
                   (JStr ''00000000'') (JStr ''6553f100'') (JStr ''deadbeef'') env0)
   \<and> outbox (handle_message (connect initial 1 ''10.0.0.1'') 1 submit_msg env0)
       = [(1, response (JInt 4) (JBool True))]"
proof -
  have a: "dget [(''id'', JInt 4), (''method'', JStr ''mining.submit''),
           (''params'', JArr [JStr ''w'', JStr ''1'', JStr ''00000000'', JStr ''6553f100'',
                             JStr ''deadbeef''])] ''method'' (JStr []) = JStr ''mining.submit''"
    and b: "dget [(''id'', JInt 4), (''method'', JStr ''mining.submit''),
           (''params'', JArr [JStr ''w'', JStr ''1'', JStr ''00000000'', JStr ''6553f100'',
                             JStr ''deadbeef''])] ''params'' (JArr [])
        = JArr [JStr ''w'', JStr ''1'', JStr ''00000000'', JStr ''6553f100'', JStr ''deadbeef'']"
    and c: "dget [(''id'', JInt 4), (''method'', JStr ''mining.submit''),
           (''params'', JArr [JStr ''w'', JStr ''1'', JStr ''00000000'', JStr ''6553f100'',
                             JStr ''deadbeef''])] ''id'' (JInt 0) = JInt 4"
    by (simp_all add: dget_def)
  have d: "username (heap (connect initial 1 ''10.0.0.1'') 1) = JNull
      \<and> 1 \<notin> broken (connect initial 1 ''10.0.0.1'')"
    by (simp add: connect_def initial_def log_msg_def)
  have o: "outbox (handle_message (connect initial 1 ''10.0.0.1'') 1 submit_msg env0)
       = [(1, response (JInt 4) (JBool True))]"
    unfolding submit_unauthorized by (simp add: response_def)
  from submit_without_authorize [OF a b, of "connect initial 1 ''10.0.0.1''" 1 env0] c d o
  show ?thesis
    by (simp add: submit_msg_def)
qed

text \<open>
  C2 as stated fails: the miner has no user name, its share reaches
  \<^verbatim>\<open>handle_submit\<close> (which logs it as accepted), and the reply is the success response.
\<close>

theorem submit_without_authorize_counterexample:
  "username (heap (connect initial 1 ''10.0.0.1'') 1) = JNull
   \<and> outbox (handle_message (connect initial 1 ''10.0.0.1'') 1 submit_msg env0)
       = [(1, JObj [(''id'', JInt 4), (''result'', JBool True), (''error'', JNull)])]
   \<and> logged (handle_message (connect initial 1 ''10.0.0.1'') 1 submit_msg env0)
       = [(INFO, ''New client connected: {}'', [JStr ''10.0.0.1'']),
          (INFO, ''Share submitted by {}: job_id={}, nonce={}'',
           [JStr ''w'', JStr ''1'', JStr ''deadbeef'']),
          (INFO, ''Share accepted from {}'', [JStr ''w''])]"
  unfolding submit_unauthorized by (simp add: connect_def initial_def log_msg_def)

section \<open>Subscribing twice, and from two sessions\<close>







section \<open>Suggested difficulty\<close>







end
